theory Spec2Isabelle
  imports Main
begin

section \<open>Text\<close>

text \<open>
  The program is \<^verbatim>\<open>Orbweaver-uploader.py\<close>. Its strings are Python \<^verbatim>\<open>str\<close> values.
  They are modelled as \<^typ>\<open>string\<close>, one \<^typ>\<open>char\<close> per code point, which covers
  the code points U+0000 to U+00FF. On that range \<^verbatim>\<open>str.isspace\<close> and
  \<^verbatim>\<open>str.lower\<close> are the two functions below, and a pattern built by
  \<^verbatim>\<open>re.escape\<close> that is matched under \<^verbatim>\<open>re.IGNORECASE\<close> matches a piece of text
  exactly when both are equal after \<^verbatim>\<open>lower\<close>.
\<close>

definition isspace :: "char \<Rightarrow> bool" where
  "isspace c \<longleftrightarrow> (of_char c :: nat) \<in> {9, 10, 11, 12, 13, 28, 29, 30, 31, 32, 133, 160}"

definition lower_char :: "char \<Rightarrow> char" where
  "lower_char c =
     (let n = (of_char c :: nat)
      in if (65 \<le> n \<and> n \<le> 90) \<or> (192 \<le> n \<and> n \<le> 222 \<and> n \<noteq> 215)
         then char_of (n + 32) else c)"

definition lower :: "string \<Rightarrow> string" where
  "lower s = map lower_char s"

text \<open>\<^verbatim>\<open>str.strip()\<close>: leading and trailing whitespace is cut off.\<close>

definition strip :: "string \<Rightarrow> string" where
  "strip s = rev (dropWhile isspace (rev (dropWhile isspace s)))"

subsection \<open>sanitize_text\<close>

text \<open>
  \<^verbatim>\<open>re.sub(r"[\n\t]+", "", text)\<close> deletes every maximal run of newline and tab
  characters, that is, every newline and every tab.
\<close>

definition remove_newlines_tabs :: "string \<Rightarrow> string" where
  "remove_newlines_tabs text = filter (\<lambda>c. c \<noteq> CHR 0x0A \<and> c \<noteq> CHR 0x09) text"

text \<open>
  \<^verbatim>\<open>re.sub(' +', " ", text)\<close> puts one space for every maximal run of spaces: a space
  that is followed by another space is left out.
\<close>

fun collapse_spaces :: "string \<Rightarrow> string" where
  "collapse_spaces [] = []"
| "collapse_spaces [c] = [c]"
| "collapse_spaces (a # b # cs) =
     (if a = CHR '' '' \<and> b = CHR '' '' then collapse_spaces (b # cs)
      else a # collapse_spaces (b # cs))"

definition sanitize_text :: "string \<Rightarrow> string" where
  "sanitize_text text = strip (collapse_spaces (remove_newlines_tabs text))"

text \<open>The properties of a sanitized text that the specification names.\<close>

fun double_space :: "string \<Rightarrow> bool" where
  "double_space [] = False"
| "double_space [c] = False"
| "double_space (a # b # cs) = ((a = CHR '' '' \<and> b = CHR '' '') \<or> double_space (b # cs))"

definition starts_with_space :: "string \<Rightarrow> bool" where
  "starts_with_space s = (case s of [] \<Rightarrow> False | c # _ \<Rightarrow> isspace c)"

definition ends_with_space :: "string \<Rightarrow> bool" where
  "ends_with_space s = starts_with_space (rev s)"

subsection \<open>str.split\<close>

text \<open>\<^verbatim>\<open>s.split(",")\<close>: the pieces between the separators; there is always at least one.\<close>

fun split_sep :: "char \<Rightarrow> string \<Rightarrow> string \<Rightarrow> string list" where
  "split_sep sep cur [] = [cur]"
| "split_sep sep cur (c # cs) =
     (if c = sep then cur # split_sep sep [] cs else split_sep sep (cur @ [c]) cs)"

definition split_comma :: "string \<Rightarrow> string list" where
  "split_comma s = split_sep (CHR '','') [] s"

text \<open>\<^verbatim>\<open>s.split()\<close>: the maximal pieces free of whitespace.\<close>

fun split_ws_acc :: "string \<Rightarrow> string \<Rightarrow> string list" where
  "split_ws_acc cur [] = (if cur = [] then [] else [cur])"
| "split_ws_acc cur (c # cs) =
     (if isspace c then (if cur = [] then split_ws_acc [] cs else cur # split_ws_acc [] cs)
      else split_ws_acc (cur @ [c]) cs)"

definition split_ws :: "string \<Rightarrow> string list" where
  "split_ws s = split_ws_acc [] s"

text \<open>\<^verbatim>\<open>"\n".join(lines)\<close>\<close>

fun join_newline :: "string list \<Rightarrow> string" where
  "join_newline [] = []"
| "join_newline [l] = l"
| "join_newline (l # m # ls) = l @ CHR 0x0A # join_newline (m # ls)"

section \<open>Regular expressions of the program\<close>

text \<open>
  Every pattern of \<^verbatim>\<open>get_iso_code\<close> and \<^verbatim>\<open>extract_descriptions\<close> is
  \<^verbatim>\<open>re.escape(word)\<close> under \<^verbatim>\<open>re.IGNORECASE\<close>: it matches the word itself, letter
  case aside. \<open>ci_match_at pat s\<close> says that \<open>s\<close> begins with such a match.
\<close>

definition ci_match_at :: "string \<Rightarrow> string \<Rightarrow> bool" where
  "ci_match_at pat s \<longleftrightarrow> length pat \<le> length s \<and> lower (take (length pat) s) = lower pat"

text \<open>\<^verbatim>\<open>re.search\<close>: is there a match at some position, the end included.\<close>

fun re_search :: "string \<Rightarrow> string \<Rightarrow> bool" where
  "re_search pat [] = ci_match_at pat []"
| "re_search pat (c # cs) = (ci_match_at pat (c # cs) \<or> re_search pat cs)"

subsection \<open>Replacement templates\<close>

text \<open>
  The replacement of \<^verbatim>\<open>re.sub\<close> is a template: \<^verbatim>\<open>re\<close> reads its backslash escapes
  before it replaces anything, and raises \<^verbatim>\<open>re.error\<close> on a bad one, whether or not
  the pattern occurs in the text. The patterns of the program have no group, so the one
  valid reference is to group 0, the match itself. The group name of \<^verbatim>\<open>\g<...>\<close> is
  read as ASCII digits only (Python 3.12; earlier versions took a few more spellings of
  0 under a deprecation warning).
\<close>

datatype py_error = TemplateError | IndexError | UnboundLocalError

datatype tpart = Lit char | Group0

definition is_digit :: "char \<Rightarrow> bool" where
  "is_digit c \<longleftrightarrow> 48 \<le> (of_char c :: nat) \<and> (of_char c :: nat) \<le> 57"

definition is_octdigit :: "char \<Rightarrow> bool" where
  "is_octdigit c \<longleftrightarrow> 48 \<le> (of_char c :: nat) \<and> (of_char c :: nat) \<le> 55"

definition is_ascii_letter :: "char \<Rightarrow> bool" where
  "is_ascii_letter c \<longleftrightarrow>
     (65 \<le> (of_char c :: nat) \<and> (of_char c :: nat) \<le> 90)
     \<or> (97 \<le> (of_char c :: nat) \<and> (of_char c :: nat) \<le> 122)"

fun oct_val :: "nat \<Rightarrow> string \<Rightarrow> nat" where
  "oct_val acc [] = acc"
| "oct_val acc (d # ds) = oct_val (8 * acc + ((of_char d :: nat) - 48)) ds"

text \<open>The table \<^verbatim>\<open>ESCAPES\<close> of the template parser.\<close>

definition escapes :: "char \<Rightarrow> char option" where
  "escapes e =
     (if e = CHR ''a'' then Some (CHR 0x07)
      else if e = CHR ''b'' then Some (CHR 0x08)
      else if e = CHR ''f'' then Some (CHR 0x0C)
      else if e = CHR ''n'' then Some (CHR 0x0A)
      else if e = CHR ''r'' then Some (CHR 0x0D)
      else if e = CHR ''t'' then Some (CHR 0x09)
      else if e = CHR ''v'' then Some (CHR 0x0B)
      else if e = CHR 0x5C then Some (CHR 0x5C)
      else None)"

definition then_parts :: "tpart list \<Rightarrow> py_error + tpart list \<Rightarrow> py_error + tpart list" where
  "then_parts ps r = (case r of Inl e \<Rightarrow> Inl e | Inr qs \<Rightarrow> Inr (ps @ qs))"

function parse_template :: "string \<Rightarrow> py_error + tpart list" where
  "parse_template [] = Inr []"
| "parse_template (c # cs) =
     (if c \<noteq> CHR 0x5C then then_parts [Lit c] (parse_template cs)
      else case cs of
        [] \<Rightarrow> Inl TemplateError
      | e # rest \<Rightarrow>
          if e = CHR ''g'' then
            (case rest of
               [] \<Rightarrow> Inl TemplateError
             | b # r \<Rightarrow>
                 let name = takeWhile (\<lambda>x. x \<noteq> CHR ''>'') r
                 in if b \<noteq> CHR ''<'' \<or> length name = length r \<or> name = []
                       \<or> \<not> list_all (\<lambda>x. x = CHR ''0'') name
                    then Inl TemplateError
                    else then_parts [Group0] (parse_template (drop (Suc (length name)) r)))
          else if e = CHR ''0'' then
            (let ds = takeWhile is_octdigit (take 2 rest)
             in then_parts [Lit (char_of (oct_val 0 ds mod 256))]
                  (parse_template (drop (length ds) rest)))
          else if is_digit e then
            (case rest of
               d # o3 # rest3 \<Rightarrow>
                 if is_octdigit e \<and> is_octdigit d \<and> is_octdigit o3
                 then (if oct_val 0 [e, d, o3] > 255 then Inl TemplateError
                       else then_parts [Lit (char_of (oct_val 0 [e, d, o3]))]
                              (parse_template rest3))
                 else Inl TemplateError
             | _ \<Rightarrow> Inl TemplateError)
          else
            (case escapes e of
               Some x \<Rightarrow> then_parts [Lit x] (parse_template rest)
             | None \<Rightarrow>
                 if is_ascii_letter e then Inl TemplateError
                 else then_parts [Lit c, Lit e] (parse_template rest)))"
  by pat_completeness auto
termination
  by (relation "measure length") auto

fun expand :: "tpart list \<Rightarrow> string \<Rightarrow> string" where
  "expand [] m = []"
| "expand (Lit c # ps) m = c # expand ps m"
| "expand (Group0 # ps) m = m @ expand ps m"

subsection \<open>re.sub\<close>

text \<open>
  \<^verbatim>\<open>re.sub\<close> goes through the text from the left and replaces the matches it meets,
  going on behind each match. The empty pattern matches before every character and at
  the end.
\<close>

function sub_from :: "string \<Rightarrow> tpart list \<Rightarrow> string \<Rightarrow> string" where
  "sub_from pat tpl [] = []"
| "sub_from pat tpl (c # cs) =
     (if ci_match_at pat (c # cs)
      then expand tpl (take (length pat) (c # cs)) @ sub_from pat tpl (drop (length pat - 1) cs)
      else c # sub_from pat tpl cs)"
  by pat_completeness auto
termination
  by (relation "measure (\<lambda>(pat, tpl, s). length s)") auto

definition sub_all :: "string \<Rightarrow> tpart list \<Rightarrow> string \<Rightarrow> string" where
  "sub_all pat tpl s =
     (if pat = [] then expand tpl [] @ concat (map (\<lambda>c. c # expand tpl []) s)
      else sub_from pat tpl s)"

definition re_sub :: "string \<Rightarrow> string \<Rightarrow> string \<Rightarrow> py_error + string" where
  "re_sub pat repl s =
     (case parse_template repl of Inl e \<Rightarrow> Inl e | Inr tpl \<Rightarrow> Inr (sub_all pat tpl s))"

section \<open>The program\<close>

subsection \<open>Data\<close>

record CountryInfo =
  name :: string
  version :: string
  iso_code :: "string option"
  description :: string

text \<open>One constructor for every \<^verbatim>\<open>print\<close> of the program.\<close>

datatype message =
    CsvFileNotFound
  | CsvReadError
  | VersionWarning
  | MismatchError
  | MismatchCounts nat nat nat
  | HtmlFileNotFound
  | HtmlParseError
  | TotalCountryCount nat
  | Uploading
  | UnmatchedHeader
  | UnmatchedName string
  | Separator
  | Listing CountryInfo
  | DatabaseError

text \<open>
  What \<^verbatim>\<open>open(CSV_FILE_PATH)\<close> and \<^verbatim>\<open>csv.reader\<close> give: no file, a file that cannot
  be read, or the rows of the file, the header row first.
\<close>

datatype csv_file = CsvNotFound | CsvUnreadable | CsvRows "string list list"

text \<open>
  What \<^verbatim>\<open>open(html_file_path)\<close> and \<^verbatim>\<open>BeautifulSoup\<close> give. Of a document the program
  reads the text of the title tag, the texts of the \<^verbatim>\<open>h2.CountryName\<close> tags and, for
  every \<^verbatim>\<open>ul.CountryRemark\<close> tag, the texts of its \<^verbatim>\<open>li\<close> tags.
\<close>

record document =
  title :: "string option"
  country_name_tags :: "string list"
  description_tags :: "string list list"

datatype html_file = HtmlNotFound | HtmlUnreadable | Html document

text \<open>The module constants read from the environment.\<close>

record config =
  REMOVE_KEYWORDS :: string
  CHANGE_FROM :: string
  CHANGE_TO :: string

text \<open>
  What the MySQL server does with one call of \<^verbatim>\<open>insert_into_database\<close>: the
  statement is committed; or the connection and the cursor are made and \<^verbatim>\<open>execute\<close>
  or \<^verbatim>\<open>commit\<close> raises \<^verbatim>\<open>mysql.connector.Error\<close>; or
  \<^verbatim>\<open>mysql.connector.connect\<close> itself raises it, so that \<^verbatim>\<open>connection\<close> is never
  bound. The server is a parameter of the run: it gives the outcome of a call from the
  calls made so far, that call being the last of them.
\<close>

datatype db_outcome = Committed | StatementError | ConnectError

type_synonym database = "(string \<times> string option \<times> string) list \<Rightarrow> db_outcome"

text \<open>
  The two module-level lists, what has been printed, the calls of
  \<^verbatim>\<open>insert_into_database\<close> made so far, each with its arguments, and the exception, if
  any, that no handler has caught.
\<close>

record state =
  country_data_list :: "CountryInfo list"
  unmatched_countries :: "string list"
  stdout :: "message list"
  db_calls :: "(string \<times> string option \<times> string) list"
  raised :: "py_error option"

definition emit :: "message list \<Rightarrow> state \<Rightarrow> state" where
  "emit ms st = st\<lparr>stdout := stdout st @ ms\<rparr>"

subsection \<open>get_iso_code\<close>

text \<open>
  The loop over the rows behind the header. A row with fewer than two columns raises
  \<^verbatim>\<open>IndexError\<close>, which the function catches: it prints and returns \<^verbatim>\<open>None\<close>.
\<close>

fun scan_rows :: "string list list \<Rightarrow> string \<Rightarrow> message list \<times> string option" where
  "scan_rows [] country_name = ([], None)"
| "scan_rows (row # rows) country_name =
     (if length row < 2 then ([CsvReadError], None)
      else let code = strip (row ! 0); csv_country_name = strip (row ! 1)
           in if lower csv_country_name = lower country_name then ([], Some code)
              else if re_search csv_country_name country_name then ([], Some code)
              else scan_rows rows country_name)"

text \<open>\<^verbatim>\<open>next(reader)\<close> on a file without a row raises \<^verbatim>\<open>StopIteration\<close>, caught as well.\<close>

definition get_iso_code :: "csv_file \<Rightarrow> string \<Rightarrow> message list \<times> string option" where
  "get_iso_code csv country_name =
     (case csv of
        CsvNotFound \<Rightarrow> ([CsvFileNotFound], None)
      | CsvUnreadable \<Rightarrow> ([CsvReadError], None)
      | CsvRows [] \<Rightarrow> ([CsvReadError], None)
      | CsvRows (header # rows) \<Rightarrow> scan_rows rows country_name)"

subsection \<open>extract_descriptions\<close>

fun remove_keywords :: "string list \<Rightarrow> string \<Rightarrow> py_error + string" where
  "remove_keywords [] desc = Inr desc"
| "remove_keywords (keyword # ks) desc =
     (case re_sub keyword [] desc of Inl e \<Rightarrow> Inl e | Inr d \<Rightarrow> remove_keywords ks d)"

fun replace_terms :: "(string \<times> string) list \<Rightarrow> string \<Rightarrow> py_error + string" where
  "replace_terms [] desc = Inr desc"
| "replace_terms ((from_term, to_term) # rs) desc =
     (case re_sub from_term to_term desc of Inl e \<Rightarrow> Inl e | Inr d \<Rightarrow> replace_terms rs d)"

text \<open>
  The body of the loop over the list items, behind \<^verbatim>\<open>sanitize_text\<close>: the block
  that removes the keywords, then the block that replaces the terms.
\<close>

definition remove_phase :: "config \<Rightarrow> string \<Rightarrow> py_error + string" where
  "remove_phase cfg desc =
     (if REMOVE_KEYWORDS cfg \<noteq> []
      then remove_keywords (split_comma (REMOVE_KEYWORDS cfg)) desc
      else Inr desc)"

definition replace_phase :: "config \<Rightarrow> string \<Rightarrow> py_error + string" where
  "replace_phase cfg desc =
     (if CHANGE_FROM cfg \<noteq> [] \<and> CHANGE_TO cfg \<noteq> []
      then replace_terms (zip (split_comma (CHANGE_FROM cfg)) (split_comma (CHANGE_TO cfg))) desc
      else Inr desc)"

definition rewrite :: "config \<Rightarrow> string \<Rightarrow> py_error + string" where
  "rewrite cfg desc =
     (case remove_phase cfg desc of Inl e \<Rightarrow> Inl e | Inr d \<Rightarrow> replace_phase cfg d)"

fun extract_descriptions :: "config \<Rightarrow> string list \<Rightarrow> py_error + string list" where
  "extract_descriptions cfg [] = Inr []"
| "extract_descriptions cfg (li # lis) =
     (case rewrite cfg (sanitize_text li) of
        Inl e \<Rightarrow> Inl e
      | Inr desc \<Rightarrow>
          (case extract_descriptions cfg lis of
             Inl e \<Rightarrow> Inl e
           | Inr ds \<Rightarrow> Inr (desc # ds)))"

subsection \<open>parse_html_file\<close>

text \<open>The list comprehension over \<^verbatim>\<open>description_tags\<close>; an exception ends it.\<close>

fun extract_all :: "config \<Rightarrow> string list list \<Rightarrow> py_error + string list list" where
  "extract_all cfg [] = Inr []"
| "extract_all cfg (ul # uls) =
     (case extract_descriptions cfg ul of
        Inl e \<Rightarrow> Inl e
      | Inr d \<Rightarrow>
          (case extract_all cfg uls of
             Inl e \<Rightarrow> Inl e
           | Inr ds \<Rightarrow> Inr (d # ds)))"

definition extract_version :: "string option \<Rightarrow> message list \<times> string" where
  "extract_version title_tag =
     (case title_tag of
        None \<Rightarrow> ([VersionWarning], ''Unknown'')
      | Some text \<Rightarrow>
          if length (split_ws text) \<ge> 3 then ([], split_ws text ! 2)
          else ([VersionWarning], ''Unknown''))"

text \<open>
  Removing the first entry if it is "General". \<^verbatim>\<open>descriptions.pop(0)\<close> on an empty
  list raises \<^verbatim>\<open>IndexError\<close>.
\<close>

definition drop_general ::
  "string list \<Rightarrow> string list list \<Rightarrow> py_error + (string list \<times> string list list)" where
  "drop_general country_names descriptions =
     (if country_names \<noteq> [] \<and> lower (hd country_names) = ''general''
      then (if descriptions = [] then Inl IndexError
            else Inr (tl country_names, tl descriptions))
      else Inr (country_names, descriptions))"

text \<open>
  The loop that matches ISO codes: what it prints, the list \<^verbatim>\<open>iso_codes\<close>, and the
  names it appends to \<^verbatim>\<open>unmatched_countries\<close>.
\<close>

fun match_iso_codes ::
  "csv_file \<Rightarrow> string list \<Rightarrow> message list \<times> string option list \<times> string list" where
  "match_iso_codes csv [] = ([], [], [])"
| "match_iso_codes csv (n # ns) =
     (case get_iso_code csv n of
        (out, code) \<Rightarrow>
          (case match_iso_codes csv ns of
             (outs, isos, unmatched) \<Rightarrow>
               (out @ outs, code # isos, (if code = None then [n] else []) @ unmatched)))"

definition build_records ::
  "string \<Rightarrow> string list \<Rightarrow> string option list \<Rightarrow> string list list \<Rightarrow> CountryInfo list" where
  "build_records data_source_version country_names iso_codes descriptions =
     map (\<lambda>(n, code, desc).
            \<lparr>name = n, version = data_source_version, iso_code = code,
             description = join_newline desc\<rparr>)
         (zip country_names (zip iso_codes descriptions))"

definition parse_html_file :: "config \<Rightarrow> csv_file \<Rightarrow> html_file \<Rightarrow> state \<Rightarrow> state" where
  "parse_html_file cfg csv html st =
     (case html of
        HtmlNotFound \<Rightarrow> emit [HtmlFileNotFound] st
      | HtmlUnreadable \<Rightarrow> emit [HtmlParseError] st
      | Html doc \<Rightarrow>
          (case extract_version (title doc) of
             (warning, ver) \<Rightarrow>
               let st1 = emit warning st;
                   country_names = map sanitize_text (country_name_tags doc)
               in case extract_all cfg (description_tags doc) of
                    Inl e \<Rightarrow> emit [HtmlParseError] st1
                  | Inr descriptions \<Rightarrow>
                      (case drop_general country_names descriptions of
                         Inl e \<Rightarrow> emit [HtmlParseError] st1
                       | Inr (names, descs) \<Rightarrow>
                           (case match_iso_codes csv names of
                              (out, iso_codes, unmatched) \<Rightarrow>
                                let st2 = (emit out st1)
                                      \<lparr>unmatched_countries := unmatched_countries st1 @ unmatched\<rparr>
                                in if length names = length iso_codes
                                      \<and> length iso_codes = length descs
                                   then st2\<lparr>country_data_list := country_data_list st2
                                          @ build_records ver names iso_codes descs\<rparr>
                                   else emit [MismatchError,
                                          MismatchCounts (length names) (length iso_codes)
                                            (length descs)] st2))))"

subsection \<open>main\<close>

text \<open>
  \<^verbatim>\<open>insert_into_database\<close> is the call of the persistence collaborator. Its
  \<^verbatim>\<open>except\<close> clause prints a \<^verbatim>\<open>mysql.connector.Error\<close>, and its \<^verbatim>\<open>finally\<close>
  clause reads \<^verbatim>\<open>connection\<close>. If it was \<^verbatim>\<open>connect\<close> that raised, that variable
  has never been bound: \<^verbatim>\<open>UnboundLocalError\<close> leaves the function, and nothing in
  \<^verbatim>\<open>upload_data_to_db\<close> or \<^verbatim>\<open>main\<close> catches it.
\<close>

definition insert_into_database ::
  "database \<Rightarrow> string \<Rightarrow> string option \<Rightarrow> string \<Rightarrow> state \<Rightarrow> state" where
  "insert_into_database db ver code desc st =
     (let st1 = st\<lparr>db_calls := db_calls st @ [(ver, code, desc)]\<rparr>
      in case db (db_calls st1) of
           Committed \<Rightarrow> st1
         | StatementError \<Rightarrow> emit [DatabaseError] st1
         | ConnectError \<Rightarrow> (emit [DatabaseError] st1)\<lparr>raised := Some UnboundLocalError\<rparr>)"

text \<open>The loop of \<^verbatim>\<open>upload_data_to_db\<close>; an exception ends it.\<close>

fun upload_list :: "database \<Rightarrow> CountryInfo list \<Rightarrow> state \<Rightarrow> state" where
  "upload_list db [] st = st"
| "upload_list db (country # cs) st =
     (let st1 = insert_into_database db (version country) (iso_code country)
                  (description country) st
      in if raised st1 = None then upload_list db cs st1 else st1)"

definition upload_data_to_db :: "database \<Rightarrow> state \<Rightarrow> state" where
  "upload_data_to_db db st = upload_list db (country_data_list st) st"

definition display_all_countries :: "state \<Rightarrow> state" where
  "display_all_countries st =
     emit (Separator # concat (map (\<lambda>country. [Separator, Listing country])
                                 (country_data_list st)) @ [Separator]) st"

definition initial_state :: state where
  "initial_state =
     \<lparr>country_data_list = [], unmatched_countries = [], stdout = [], db_calls = [],
      raised = None\<rparr>"

text \<open>An exception that leaves \<^verbatim>\<open>upload_data_to_db\<close> ends \<^verbatim>\<open>main\<close> before the listing.\<close>

definition main :: "database \<Rightarrow> config \<Rightarrow> csv_file \<Rightarrow> html_file \<Rightarrow> state" where
  "main db cfg csv html =
     (let st1 = parse_html_file cfg csv html initial_state;
          st2 = emit [TotalCountryCount (length (country_data_list st1))] st1;
          st3 = (if unmatched_countries st2 = []
                 then upload_data_to_db db (emit [Uploading] st2)
                 else emit (UnmatchedHeader # map UnmatchedName (unmatched_countries st2)) st2)
      in if raised st3 = None then display_all_countries st3 else st3)"

section \<open>The name resolver of the specification\<close>

text \<open>
  The specification's reference table is a sequence of entries, each an ISO code and a
  canonical name, in the order of the file; \<open>resolve\<close> follows its words: the code of
  the first entry whose canonical name equals the raw name or occurs in it, letter case
  aside, and absent if there is none. \<open>reference_table\<close> is the table that the rows of
  the file stand for: first column the code, second column the name, both stripped.
\<close>

type_synonym reference_entry = "string \<times> string"

definition entry_matches :: "string \<Rightarrow> reference_entry \<Rightarrow> bool" where
  "entry_matches raw_name e \<longleftrightarrow>
     lower (snd e) = lower raw_name \<or> re_search (snd e) raw_name"

definition resolve :: "string \<Rightarrow> reference_entry list \<Rightarrow> string option" where
  "resolve raw_name table =
     (case find (entry_matches raw_name) table of None \<Rightarrow> None | Some e \<Rightarrow> Some (fst e))"

definition entry_of :: "string list \<Rightarrow> reference_entry" where
  "entry_of row = (strip (row ! 0), strip (row ! 1))"

definition reference_table :: "string list list \<Rightarrow> reference_entry list" where
  "reference_table rows = map entry_of rows"

definition well_formed :: "string list \<Rightarrow> bool" where
  "well_formed row \<longleftrightarrow> 2 \<le> length row"

section \<open>The rewrite engine of the specification\<close>

text \<open>
  The specification's \<open>rewrite(text, remove_keywords, substitutions)\<close>, following its
  words: first every keyword, in the given order, is removed wherever it occurs, letter
  case aside; then, for every pair in the given order, every occurrence of the
  from-term is replaced by the to-term taken literally. The rule sets are those that the
  configuration stands for; an empty setting is an empty rule set.
\<close>

definition replace_literal :: "string \<Rightarrow> string \<Rightarrow> string \<Rightarrow> string" where
  "replace_literal from_term to_term text = sub_all from_term (map Lit to_term) text"

definition spec_rewrite :: "string \<Rightarrow> string list \<Rightarrow> (string \<times> string) list \<Rightarrow> string" where
  "spec_rewrite text keywords substitutions =
     foldl (\<lambda>t (from_term, to_term). replace_literal from_term to_term t)
       (foldl (\<lambda>t keyword. replace_literal keyword [] t) text keywords)
       substitutions"

definition keywords_of :: "config \<Rightarrow> string list" where
  "keywords_of cfg =
     (if REMOVE_KEYWORDS cfg = [] then [] else split_comma (REMOVE_KEYWORDS cfg))"

definition substitutions_of :: "config \<Rightarrow> (string \<times> string) list" where
  "substitutions_of cfg =
     (if CHANGE_FROM cfg = [] \<or> CHANGE_TO cfg = [] then []
      else zip (split_comma (CHANGE_FROM cfg)) (split_comma (CHANGE_TO cfg)))"

section \<open>The sanitizer of the specification\<close>

text \<open>
  The specification's words for the spaces: runs of spaces are collapsed to one. Where
  a space stands, the whole run of spaces that begins there gives one space.
\<close>

function collapse_runs :: "string \<Rightarrow> string" where
  "collapse_runs [] = []"
| "collapse_runs (c # cs) =
     (if c = CHR '' '' then CHR '' '' # collapse_runs (dropWhile (\<lambda>x. x = CHR '' '') cs)
      else c # collapse_runs cs)"
  by pat_completeness auto
termination
  by (relation "measure length") (auto simp: length_dropWhile_le less_Suc_eq_le)

section \<open>Properties of the sanitizer\<close>

lemma isspace_space: "isspace (CHR '' '')"
  by (simp add: isspace_def)

lemma strip_nil: "strip [] = []"
  by (simp add: strip_def)

lemma set_strip: "set (strip s) \<subseteq> set s"
proof -
  have "set (strip s) = set (dropWhile isspace (rev (dropWhile isspace s)))"
    by (simp add: strip_def)
  also have "\<dots> \<subseteq> set (rev (dropWhile isspace s))"
    by (rule set_dropWhileD [THEN subsetI])
  also have "\<dots> \<subseteq> set s"
    by (auto dest: set_dropWhileD)
  finally show ?thesis .
qed

lemma set_collapse_spaces: "set (collapse_spaces s) \<subseteq> set s"
  by (induction s rule: collapse_spaces.induct) auto

lemma collapse_spaces_hd:
  "collapse_spaces (a # s) \<noteq> [] \<and> hd (collapse_spaces (a # s)) = a"
  by (induction "a # s" arbitrary: a s rule: collapse_spaces.induct) auto

lemma no_double_space_collapse: "\<not> double_space (collapse_spaces s)"
proof (induction s rule: collapse_spaces.induct)
  case (3 a b cs)
  obtain t where t: "collapse_spaces (b # cs) = b # t"
    using collapse_spaces_hd [of b cs] by (cases "collapse_spaces (b # cs)") auto
  with 3 show ?case by auto
qed simp_all

lemma double_space_Cons: "\<not> double_space (c # s) \<Longrightarrow> \<not> double_space s"
  by (cases s) auto

lemma double_space_dropWhile: "\<not> double_space s \<Longrightarrow> \<not> double_space (dropWhile P s)"
  by (induction s) (auto dest: double_space_Cons)

lemma double_space_append_iff:
  "double_space (xs @ [a, b]) \<longleftrightarrow> double_space (xs @ [a]) \<or> (a = CHR '' '' \<and> b = CHR '' '')"
  by (induction xs rule: double_space.induct) auto

lemma double_space_rev: "double_space (rev s) = double_space s"
proof (induction s rule: double_space.induct)
  case (3 a b cs)
  have "double_space (rev (a # b # cs)) = double_space (rev cs @ [b, a])"
    by simp
  also have "\<dots> = (double_space (rev cs @ [b]) \<or> (b = CHR '' '' \<and> a = CHR '' ''))"
    by (rule double_space_append_iff)
  also have "\<dots> = double_space (a # b # cs)"
    using 3 by auto
  finally show ?case .
qed simp_all

lemma double_space_strip: "\<not> double_space s \<Longrightarrow> \<not> double_space (strip s)"
  by (simp add: strip_def double_space_rev double_space_dropWhile)

lemma starts_dropWhile: "\<not> starts_with_space (dropWhile isspace s)"
proof (cases "dropWhile isspace s")
  case Nil
  then show ?thesis by (simp only: starts_with_space_def list.case) simp
next
  case (Cons c t)
  then have "\<not> isspace c" using hd_dropWhile [of isspace s] by auto
  with Cons show ?thesis by (simp add: starts_with_space_def)
qed

lemma dropWhile_id: "\<not> starts_with_space s \<Longrightarrow> dropWhile isspace s = s"
  by (cases s) (auto simp: starts_with_space_def)

lemma strip_ends: "\<not> ends_with_space (strip s)"
  by (simp add: ends_with_space_def strip_def starts_dropWhile)

lemma rstrip_starts:
  "\<not> starts_with_space d \<Longrightarrow> \<not> starts_with_space (rev (dropWhile isspace (rev d)))"
proof (cases d)
  case Nil
  then show ?thesis by (simp add: starts_with_space_def)
next
  case (Cons x xs)
  assume "\<not> starts_with_space d"
  with Cons have nx: "\<not> isspace x" by (simp add: starts_with_space_def)
  have "dropWhile isspace (rev xs @ x # []) = dropWhile isspace (rev xs) @ x # []"
    using nx by (rule dropWhile_append3)
  with Cons nx show ?thesis by (simp add: starts_with_space_def)
qed

lemma strip_starts: "\<not> starts_with_space (strip s)"
  unfolding strip_def by (rule rstrip_starts) (rule starts_dropWhile)

lemma strip_id: "\<not> starts_with_space s \<Longrightarrow> \<not> ends_with_space s \<Longrightarrow> strip s = s"
  by (simp add: strip_def ends_with_space_def dropWhile_id)

lemma remove_newlines_tabs_id:
  "CHR 0x0A \<notin> set s \<Longrightarrow> CHR 0x09 \<notin> set s \<Longrightarrow> remove_newlines_tabs s = s"
  unfolding remove_newlines_tabs_def by (rule filter_True) auto

lemma collapse_spaces_id: "\<not> double_space s \<Longrightarrow> collapse_spaces s = s"
  by (induction s rule: collapse_spaces.induct) auto

lemma sanitize_no_newline_tab:
  "CHR 0x0A \<notin> set (sanitize_text x) \<and> CHR 0x09 \<notin> set (sanitize_text x)"
proof -
  have "set (sanitize_text x) \<subseteq> set (remove_newlines_tabs x)"
    unfolding sanitize_text_def using set_strip set_collapse_spaces by blast
  then show ?thesis by (auto simp: remove_newlines_tabs_def)
qed

lemma sanitize_no_double_space: "\<not> double_space (sanitize_text x)"
  by (simp add: sanitize_text_def double_space_strip no_double_space_collapse)

text \<open>How the result of \<^verbatim>\<open>sanitize_text\<close> comes from its input.\<close>

lemma collapse_spaces_runs: "collapse_spaces s = collapse_runs s"
proof (induction s rule: collapse_spaces.induct)
  case 1
  then show ?case by simp
next
  case (2 c)
  then show ?case by simp
next
  case (3 a b cs)
  then show ?case by (cases "a = CHR '' ''"; cases "b = CHR '' ''") simp_all
qed

lemma strip_decomposition:
  "\<exists>pre post. s = pre @ strip s @ post \<and> list_all isspace pre \<and> list_all isspace post"
proof -
  let ?pre = "takeWhile isspace s"
  let ?d = "dropWhile isspace s"
  let ?post = "rev (takeWhile isspace (rev ?d))"
  have "rev (takeWhile isspace (rev ?d) @ dropWhile isspace (rev ?d)) = rev (rev ?d)"
    by (simp only: takeWhile_dropWhile_id)
  then have "rev (dropWhile isspace (rev ?d)) @ ?post = ?d"
    by (simp only: rev_append rev_rev_ident)
  then have d: "?d = strip s @ ?post"
    by (simp only: strip_def)
  have "s = ?pre @ ?d"
    by simp
  with d have 1: "s = ?pre @ strip s @ ?post"
    by simp
  have 2: "list_all isspace ?pre"
    by (simp add: list_all_iff) (meson set_takeWhileD)
  have 3: "list_all isspace ?post"
    by (simp add: list_all_iff) (meson set_takeWhileD)
  from 1 2 3 show ?thesis by blast
qed

lemma filter_collapse_spaces:
  "filter (\<lambda>c. \<not> isspace c) (collapse_spaces s) = filter (\<lambda>c. \<not> isspace c) s"
  by (induction s rule: collapse_spaces.induct) (simp_all add: isspace_space)

lemma filter_strip:
  "filter (\<lambda>c. \<not> isspace c) (strip s) = filter (\<lambda>c. \<not> isspace c) s"
proof -
  obtain pre post where s: "s = pre @ strip s @ post"
    and pre: "list_all isspace pre" and post: "list_all isspace post"
    using strip_decomposition [of s] by blast
  have e: "filter (\<lambda>c. \<not> isspace c) w = []" if "list_all isspace w" for w
    using that by (induction w) simp_all
  have "filter (\<lambda>c. \<not> isspace c) s
        = filter (\<lambda>c. \<not> isspace c) (pre @ strip s @ post)"
    using s by simp
  also have "\<dots> = filter (\<lambda>c. \<not> isspace c) (strip s)"
    by (simp add: e [OF pre] e [OF post])
  finally show ?thesis by simp
qed

lemma filter_remove_newlines_tabs:
  "filter (\<lambda>c. \<not> isspace c) (remove_newlines_tabs s) = filter (\<lambda>c. \<not> isspace c) s"
proof -
  have "isspace (CHR 0x0A)" and "isspace (CHR 0x09)"
    by (simp_all add: isspace_def)
  then have "(\<not> isspace c \<and> c \<noteq> CHR 0x0A \<and> c \<noteq> CHR 0x09) = (\<not> isspace c)" for c
    by auto
  then show ?thesis
    by (simp add: remove_newlines_tabs_def conj_commute)
qed

text \<open>
  Claim C7. \<^verbatim>\<open>sanitize_text\<close> is a total function, and for every input its result
  holds no newline and no tab, no two spaces in a row, and neither begins nor ends with
  a whitespace character. The result comes from the input in this way: the newlines and
  tabs are removed, every run of spaces is collapsed to one space, and of the text so
  obtained a piece of whitespace is cut off at the beginning and at the end, and nothing
  else. So every character that is not whitespace is kept, in its place.
\<close>

theorem sanitize_text_clean:
  "CHR 0x0A \<notin> set (sanitize_text x) \<and> CHR 0x09 \<notin> set (sanitize_text x)
   \<and> \<not> double_space (sanitize_text x)
   \<and> \<not> starts_with_space (sanitize_text x) \<and> \<not> ends_with_space (sanitize_text x)
   \<and> (\<exists>pre post.
         collapse_runs (remove_newlines_tabs x) = pre @ sanitize_text x @ post
         \<and> list_all isspace pre \<and> list_all isspace post)
   \<and> filter (\<lambda>c. \<not> isspace c) (sanitize_text x) = filter (\<lambda>c. \<not> isspace c) x"
proof -
  have lacks: "CHR 0x0A \<notin> set (sanitize_text x) \<and> CHR 0x09 \<notin> set (sanitize_text x)
      \<and> \<not> double_space (sanitize_text x)
      \<and> \<not> starts_with_space (sanitize_text x) \<and> \<not> ends_with_space (sanitize_text x)"
    using sanitize_no_newline_tab [of x] sanitize_no_double_space [of x]
    by (simp add: sanitize_text_def strip_starts strip_ends)
  have cut: "\<exists>pre post.
      collapse_runs (remove_newlines_tabs x) = pre @ sanitize_text x @ post
      \<and> list_all isspace pre \<and> list_all isspace post"
    using strip_decomposition [of "collapse_spaces (remove_newlines_tabs x)"]
    by (simp add: sanitize_text_def collapse_spaces_runs)
  have kept: "filter (\<lambda>c. \<not> isspace c) (sanitize_text x) = filter (\<lambda>c. \<not> isspace c) x"
    by (simp add: sanitize_text_def filter_strip filter_collapse_spaces
        filter_remove_newlines_tabs)
  from lacks cut kept show ?thesis by blast
qed

theorem sanitize_text_clean_witness:
  "sanitize_text (''  Hello '' @ [CHR 0x0A, CHR 0x09] @ ''  big   world '' @ [CHR 0x09])
   = ''Hello big world''
   \<and> collapse_runs (remove_newlines_tabs
        (''  Hello '' @ [CHR 0x0A, CHR 0x09] @ ''  big   world '' @ [CHR 0x09]))
     = '' Hello big world ''
   \<and> \<not> double_space
        (sanitize_text (''  Hello '' @ [CHR 0x0A, CHR 0x09] @ ''  big   world '' @ [CHR 0x09]))"
proof -
  have 1: "sanitize_text (''  Hello '' @ [CHR 0x0A, CHR 0x09] @ ''  big   world '' @ [CHR 0x09])
           = ''Hello big world''"
    by code_simp
  have 2: "collapse_runs (remove_newlines_tabs
             (''  Hello '' @ [CHR 0x0A, CHR 0x09] @ ''  big   world '' @ [CHR 0x09]))
           = '' Hello big world ''"
    by code_simp
  show ?thesis
    using sanitize_text_clean
        [of "''  Hello '' @ [CHR 0x0A, CHR 0x09] @ ''  big   world '' @ [CHR 0x09]"] 1 2
    by blast
qed

text \<open>
  Claim C8. Sanitizing is idempotent: a sanitized text is left as it is by
  \<^verbatim>\<open>sanitize_text\<close>.
\<close>

theorem sanitize_text_idempotent: "sanitize_text (sanitize_text x) = sanitize_text x"
proof -
  let ?y = "sanitize_text x"
  have 1: "remove_newlines_tabs ?y = ?y"
    using sanitize_no_newline_tab [of x] by (simp add: remove_newlines_tabs_id)
  have 2: "collapse_spaces ?y = ?y"
    by (simp add: collapse_spaces_id sanitize_no_double_space)
  have 3: "strip ?y = ?y"
    by (rule strip_id) (simp_all add: sanitize_text_def strip_starts strip_ends)
  show ?thesis
    unfolding sanitize_text_def [of ?y] by (simp add: 1 2 3)
qed

section \<open>Properties of the name resolver\<close>

lemma ci_match_at_nil: "ci_match_at [] s"
  by (simp add: ci_match_at_def lower_def)

lemma re_search_nil: "re_search [] s"
  by (cases s) (simp_all add: ci_match_at_nil)

lemma entry_matches_empty_name: "snd e = [] \<Longrightarrow> entry_matches raw_name e"
  by (simp add: entry_matches_def re_search_nil)

lemma scan_rows_resolve:
  "list_all well_formed rows \<Longrightarrow>
   scan_rows rows raw_name = ([], resolve raw_name (reference_table rows))"
proof (induction rows)
  case Nil
  then show ?case by (simp add: resolve_def reference_table_def)
next
  case (Cons row rows)
  then have ih: "scan_rows rows raw_name = ([], resolve raw_name (reference_table rows))"
    and wf: "\<not> length row < 2"
    by (simp_all add: well_formed_def)
  show ?case
  proof (cases "entry_matches raw_name (entry_of row)")
    case True
    then have "resolve raw_name (reference_table (row # rows)) = Some (strip (row ! 0))"
      by (simp add: resolve_def reference_table_def entry_of_def)
    moreover have "scan_rows (row # rows) raw_name = ([], Some (strip (row ! 0)))"
      using True wf by (auto simp: entry_matches_def entry_of_def Let_def)
    ultimately show ?thesis by simp
  next
    case False
    then have "resolve raw_name (reference_table (row # rows))
               = resolve raw_name (reference_table rows)"
      by (simp add: resolve_def reference_table_def)
    moreover have "scan_rows (row # rows) raw_name = scan_rows rows raw_name"
      using False wf by (auto simp: entry_matches_def entry_of_def Let_def)
    ultimately show ?thesis using ih by simp
  qed
qed

lemma resolve_append_first:
  "\<not> list_ex (entry_matches raw_name) pre \<Longrightarrow> entry_matches raw_name e \<Longrightarrow>
   resolve raw_name (pre @ e # post) = Some (fst e)"
  by (induction pre) (simp_all add: resolve_def)

lemma resolve_some:
  "list_ex (entry_matches raw_name) table \<Longrightarrow> resolve raw_name table \<noteq> None"
  by (induction table) (auto simp: resolve_def)

text \<open>
  Claim C2. On a reference table whose rows all have their two columns,
  \<^verbatim>\<open>get_iso_code\<close> prints nothing and returns what \<open>resolve\<close> returns: the ISO code
  of the first entry, in the order of the table, whose canonical name equals the raw
  name or occurs in it, letter case aside, and \<^verbatim>\<open>None\<close> if no entry does. Both tests of
  an entry return that entry's code, so the equality test, made first, decides whenever
  it holds.
\<close>

theorem get_iso_code_resolve:
  assumes "list_all well_formed rows"
  shows "get_iso_code (CsvRows (header # rows)) raw_name
         = ([], resolve raw_name (reference_table rows))"
  using assms by (simp add: get_iso_code_def scan_rows_resolve)

theorem get_iso_code_resolve_witness:
  "get_iso_code (CsvRows [[''iso'', ''name''], [''AR'', ''Argentina''], [''FR'', '' France'']])
     ''FRANCE (Metropolitan)''
   = ([], resolve ''FRANCE (Metropolitan)''
            (reference_table [[''AR'', ''Argentina''], [''FR'', '' France'']]))
   \<and> resolve ''FRANCE (Metropolitan)''
        (reference_table [[''AR'', ''Argentina''], [''FR'', '' France'']]) = Some ''FR''
   \<and> resolve ''Atlantis''
        (reference_table [[''AR'', ''Argentina''], [''FR'', '' France'']]) = None"
proof -
  have wf: "list_all well_formed [[''AR'', ''Argentina''], [''FR'', '' France'']]"
    by (simp add: well_formed_def)
  have r: "resolve ''FRANCE (Metropolitan)''
             (reference_table [[''AR'', ''Argentina''], [''FR'', '' France'']]) = Some ''FR''"
    by code_simp
  have a: "resolve ''Atlantis''
             (reference_table [[''AR'', ''Argentina''], [''FR'', '' France'']]) = None"
    by code_simp
  show ?thesis
    using get_iso_code_resolve [OF wf, of "[''iso'', ''name'']" "''FRANCE (Metropolitan)''"] r a
    by simp
qed

text \<open>
  Claim C9. Let the table have its two columns in every row, and let one row have an
  empty canonical name. Then \<^verbatim>\<open>get_iso_code\<close> returns a code for every raw name,
  and if no row before that one matches the raw name, it returns the code of that row,
  whatever rows follow. So an unknown name is resolved to \<^verbatim>\<open>None\<close> only on tables
  whose canonical names are all non-empty.
\<close>

theorem empty_canonical_name_matches_all:
  assumes "list_all well_formed (pre @ row # post)"
    and "strip (row ! 1) = []"
  shows "snd (get_iso_code (CsvRows (header # pre @ row # post)) raw_name) \<noteq> None
         \<and> (\<not> list_ex (entry_matches raw_name) (reference_table pre)
            \<longrightarrow> snd (get_iso_code (CsvRows (header # pre @ row # post)) raw_name)
                = Some (strip (row ! 0)))"
proof -
  have m: "entry_matches raw_name (entry_of row)"
    using assms(2) by (simp add: entry_matches_empty_name entry_of_def)
  have g: "get_iso_code (CsvRows (header # pre @ row # post)) raw_name
           = ([], resolve raw_name (reference_table (pre @ row # post)))"
    using assms(1) by (simp add: get_iso_code_def scan_rows_resolve)
  have t: "reference_table (pre @ row # post)
           = reference_table pre @ entry_of row # reference_table post"
    by (simp add: reference_table_def)
  have "list_ex (entry_matches raw_name) (reference_table (pre @ row # post))"
    using m by (simp add: t)
  then have 1: "resolve raw_name (reference_table (pre @ row # post)) \<noteq> None"
    by (rule resolve_some)
  have 2: "resolve raw_name (reference_table (pre @ row # post)) = Some (strip (row ! 0))"
    if "\<not> list_ex (entry_matches raw_name) (reference_table pre)"
    using resolve_append_first [OF that m] by (simp add: t entry_of_def)
  show ?thesis using 1 2 by (simp add: g)
qed

theorem empty_canonical_name_matches_all_witness:
  "snd (get_iso_code (CsvRows [[''iso'', ''name''], [''AR'', ''Argentina''], [''XX'', '' ''],
          [''BR'', ''Brazil'']]) ''Brazil'') = Some ''XX''
   \<and> snd (get_iso_code (CsvRows [[''iso'', ''name''], [''AR'', ''Argentina''], [''XX'', '' ''],
          [''BR'', ''Brazil'']]) ''Atlantis'') = Some ''XX''"
proof -
  have wf: "list_all well_formed ([[''AR'', ''Argentina'']] @ [''XX'', '' ''] # [[''BR'', ''Brazil'']])"
    by (simp add: well_formed_def)
  have e: "strip ([''XX'', '' ''] ! 1) = []"
    by (simp add: strip_def isspace_def)
  have n1: "\<not> list_ex (entry_matches ''Brazil'') (reference_table [[''AR'', ''Argentina'']])"
    by code_simp
  have n2: "\<not> list_ex (entry_matches ''Atlantis'') (reference_table [[''AR'', ''Argentina'']])"
    by code_simp
  have s: "strip ([''XX'', '' ''] ! 0) = ''XX''"
    by code_simp
  show ?thesis
    using empty_canonical_name_matches_all [OF wf e, of "[''iso'', ''name'']" "''Brazil''"]
      empty_canonical_name_matches_all [OF wf e, of "[''iso'', ''name'']" "''Atlantis''"]
      n1 n2 s
    by simp
qed


section \<open>Properties of the rewriting\<close>

text \<open>
  Claim C5. The removals run before the substitutions, and for the terms of the
  specification's example the result is the one it gives. But the to-term is handed to
  \<^verbatim>\<open>re.sub\<close> as a replacement template, not as a literal string: with the to-term
  backslash-n the text "100 km limit" becomes "100 ", a newline, " limit", where the
  rewriting of the specification puts the two characters of the to-term; and with a
  to-term that is a lone backslash the rewriting raises an error.
\<close>

theorem to_term_is_a_template:
  "rewrite \<lparr>REMOVE_KEYWORDS = '''', CHANGE_FROM = ''km'', CHANGE_TO = [CHR 0x5C, CHR ''n'']\<rparr>
     ''100 km limit'' = Inr (''100 '' @ [CHR 0x0A] @ '' limit'')
   \<and> spec_rewrite ''100 km limit''
       (keywords_of
          \<lparr>REMOVE_KEYWORDS = '''', CHANGE_FROM = ''km'', CHANGE_TO = [CHR 0x5C, CHR ''n'']\<rparr>)
       (substitutions_of
          \<lparr>REMOVE_KEYWORDS = '''', CHANGE_FROM = ''km'', CHANGE_TO = [CHR 0x5C, CHR ''n'']\<rparr>)
     = ''100 '' @ [CHR 0x5C, CHR ''n''] @ '' limit''
   \<and> rewrite \<lparr>REMOVE_KEYWORDS = '''', CHANGE_FROM = ''km'', CHANGE_TO = [CHR 0x5C]\<rparr>
     ''100 km limit'' = Inl TemplateError
   \<and> rewrite \<lparr>REMOVE_KEYWORDS = '''', CHANGE_FROM = ''km'', CHANGE_TO = ''mi''\<rparr>
     ''100 KM limit'' = Inr ''100 mi limit''
   \<and> rewrite \<lparr>REMOVE_KEYWORDS = ''Foo'', CHANGE_FROM = '''', CHANGE_TO = ''''\<rparr>
     ''This is Foo text'' = Inr ''This is  text''"
  by code_simp

text \<open>
  Where no to-term holds a backslash, the template is the to-term itself, and the
  rewriting of the program is the rewriting of the specification.
\<close>

lemma parse_template_literal:
  "CHR 0x5C \<notin> set t \<Longrightarrow> parse_template t = Inr (map Lit t)"
proof (induction t)
  case Nil
  then show ?case by simp
next
  case (Cons a t)
  then have "a \<noteq> CHR 0x5C" and "parse_template t = Inr (map Lit t)"
    by auto
  then show ?case by (simp add: then_parts_def)
qed

lemma re_sub_literal:
  "CHR 0x5C \<notin> set to_term \<Longrightarrow>
   re_sub from_term to_term text = Inr (replace_literal from_term to_term text)"
  by (simp add: re_sub_def parse_template_literal replace_literal_def)

lemma remove_keywords_spec:
  "remove_keywords ks d = Inr (foldl (\<lambda>t keyword. replace_literal keyword [] t) d ks)"
  by (induction ks arbitrary: d) (simp_all add: re_sub_literal)

lemma replace_terms_spec:
  "\<forall>p \<in> set rs. CHR 0x5C \<notin> set (snd p) \<Longrightarrow>
   replace_terms rs d
   = Inr (foldl (\<lambda>t (from_term, to_term). replace_literal from_term to_term t) d rs)"
  by (induction rs arbitrary: d) (auto simp: re_sub_literal)

lemma split_sep_chars:
  "t \<in> set (split_sep sep cur s) \<Longrightarrow> set t \<subseteq> set cur \<union> set s"
proof (induction s arbitrary: cur)
  case Nil
  then show ?case by simp
next
  case (Cons c s)
  show ?case
  proof (cases "c = sep")
    case True
    with Cons.prems have "t = cur \<or> t \<in> set (split_sep sep [] s)" by simp
    then show ?thesis using Cons.IH [of "[]"] by auto
  next
    case False
    with Cons.prems have "t \<in> set (split_sep sep (cur @ [c]) s)" by simp
    then show ?thesis using Cons.IH [of "cur @ [c]"] by auto
  qed
qed

lemma split_comma_chars: "t \<in> set (split_comma s) \<Longrightarrow> set t \<subseteq> set s"
  using split_sep_chars [of t "CHR '',''" "[]" s] by (simp add: split_comma_def)

lemma rewrite_literal:
  assumes "CHR 0x5C \<notin> set (CHANGE_TO cfg)"
  shows "rewrite cfg text = Inr (spec_rewrite text (keywords_of cfg) (substitutions_of cfg))"
proof -
  have r: "remove_phase cfg text
           = Inr (foldl (\<lambda>t keyword. replace_literal keyword [] t) text (keywords_of cfg))"
    by (simp add: remove_phase_def keywords_of_def remove_keywords_spec)
  have "CHR 0x5C \<notin> set (snd p)" if "p \<in> set (substitutions_of cfg)" for p
  proof -
    obtain a b where ab: "p = (a, b)" by (cases p)
    with that have "(a, b) \<in> set (zip (split_comma (CHANGE_FROM cfg))
                                  (split_comma (CHANGE_TO cfg)))"
      by (simp add: substitutions_of_def split: if_splits)
    then have "b \<in> set (split_comma (CHANGE_TO cfg))"
      by (rule set_zip_rightD)
    with ab have "snd p \<in> set (split_comma (CHANGE_TO cfg))" by simp
    then show ?thesis using split_comma_chars assms by blast
  qed
  then have s: "replace_terms (substitutions_of cfg) d
                = Inr (foldl (\<lambda>t (from_term, to_term). replace_literal from_term to_term t) d
                         (substitutions_of cfg))" for d
    by (intro replace_terms_spec) blast
  have p: "replace_phase cfg d = replace_terms (substitutions_of cfg) d" for d
    by (simp add: replace_phase_def substitutions_of_def)
  show ?thesis
    by (simp add: rewrite_def r p s spec_rewrite_def)
qed

text \<open>
  Claim C10. The pairs that are applied are those of \<^verbatim>\<open>zip\<close>: with \<open>k\<close> the smaller
  of the two numbers of terms, the first \<open>k\<close> from-terms with the first \<open>k\<close> to-terms,
  and the terms behind them are ignored. If \<^verbatim>\<open>CHANGE_TO\<close> (or \<^verbatim>\<open>CHANGE_FROM\<close>) is
  empty, no substitution is applied at all.
\<close>

theorem replace_phase_truncates:
  "replace_phase cfg desc =
     (if CHANGE_FROM cfg = [] \<or> CHANGE_TO cfg = [] then Inr desc
      else replace_terms
             (zip (take (min (length (split_comma (CHANGE_FROM cfg)))
                             (length (split_comma (CHANGE_TO cfg))))
                        (split_comma (CHANGE_FROM cfg)))
                  (take (min (length (split_comma (CHANGE_FROM cfg)))
                             (length (split_comma (CHANGE_TO cfg))))
                        (split_comma (CHANGE_TO cfg)))) desc)
   \<and> length (zip (split_comma (CHANGE_FROM cfg)) (split_comma (CHANGE_TO cfg)))
       = min (length (split_comma (CHANGE_FROM cfg))) (length (split_comma (CHANGE_TO cfg)))"
proof -
  have "zip xs ys = zip (take (min (length xs) (length ys)) xs)
                        (take (min (length xs) (length ys)) ys)" for xs ys :: "string list"
    by (simp add: take_zip [symmetric])
  then show ?thesis
    unfolding replace_phase_def by auto
qed

theorem replace_phase_truncates_witness:
  "replace_phase \<lparr>REMOVE_KEYWORDS = '''', CHANGE_FROM = ''km,limit'', CHANGE_TO = ''mi''\<rparr>
     ''100 km limit'' = Inr ''100 mi limit''
   \<and> replace_phase \<lparr>REMOVE_KEYWORDS = '''', CHANGE_FROM = ''km,limit'', CHANGE_TO = ''''\<rparr>
     ''100 km limit'' = Inr ''100 km limit''"
proof -
  have 1: "replace_terms
             (zip (take (min (length (split_comma ''km,limit'')) (length (split_comma ''mi'')))
                        (split_comma ''km,limit''))
                  (take (min (length (split_comma ''km,limit'')) (length (split_comma ''mi'')))
                        (split_comma ''mi''))) ''100 km limit'' = Inr ''100 mi limit''"
    by code_simp
  show ?thesis
    using replace_phase_truncates
        [of "\<lparr>REMOVE_KEYWORDS = '''', CHANGE_FROM = ''km,limit'', CHANGE_TO = ''mi''\<rparr>"
            "''100 km limit''"]
      replace_phase_truncates
        [of "\<lparr>REMOVE_KEYWORDS = '''', CHANGE_FROM = ''km,limit'', CHANGE_TO = ''''\<rparr>"
            "''100 km limit''"] 1
    by simp
qed

section \<open>Properties of the extraction and of the run\<close>

lemma emit_fields [simp]:
  "country_data_list (emit ms st) = country_data_list st"
  "unmatched_countries (emit ms st) = unmatched_countries st"
  "db_calls (emit ms st) = db_calls st"
  "stdout (emit ms st) = stdout st @ ms"
  "raised (emit ms st) = raised st"
  by (simp_all add: emit_def)

lemma insert_fields [simp]:
  "country_data_list (insert_into_database db ver code desc st) = country_data_list st"
  "unmatched_countries (insert_into_database db ver code desc st) = unmatched_countries st"
  by (simp_all add: insert_into_database_def Let_def split: db_outcome.splits)

lemma upload_list_fields [simp]:
  "country_data_list (upload_list db cs st) = country_data_list st"
  "unmatched_countries (upload_list db cs st) = unmatched_countries st"
  by (induction cs arbitrary: st; simp add: Let_def)+

lemma upload_list_returns:
  assumes "\<forall>calls. db calls \<noteq> ConnectError" and "raised st = None"
  shows "db_calls (upload_list db cs st)
         = db_calls st @ map (\<lambda>c. (version c, iso_code c, description c)) cs
         \<and> raised (upload_list db cs st) = None
         \<and> set (stdout st) \<subseteq> set (stdout (upload_list db cs st))"
  using assms(2)
proof (induction cs arbitrary: st)
  case Nil
  then show ?case by simp
next
  case (Cons c cs)
  let ?st1 = "insert_into_database db (version c) (iso_code c) (description c) st"
  have r: "raised ?st1 = None"
    using assms(1) Cons.prems
    by (simp add: insert_into_database_def Let_def split: db_outcome.splits)
  have d: "db_calls ?st1 = db_calls st @ [(version c, iso_code c, description c)]"
    by (simp add: insert_into_database_def Let_def split: db_outcome.splits)
  have o: "set (stdout st) \<subseteq> set (stdout ?st1)"
    by (auto simp: insert_into_database_def Let_def split: db_outcome.splits)
  show ?case
    using Cons.IH [OF r] r d o by (auto simp: Let_def)
qed

lemma display_fields [simp]:
  "country_data_list (display_all_countries st) = country_data_list st"
  "unmatched_countries (display_all_countries st) = unmatched_countries st"
  "db_calls (display_all_countries st) = db_calls st"
  "raised (display_all_countries st) = raised st"
  by (simp_all add: display_all_countries_def)

lemma match_iso_codes_length:
  "match_iso_codes csv names = (out, iso_codes, unmatched) \<Longrightarrow> length iso_codes = length names"
  by (induction names arbitrary: out iso_codes unmatched) (auto split: prod.splits)

lemma length_build_records:
  "length iso_codes = length names \<Longrightarrow> length descs = length names \<Longrightarrow>
   length (build_records ver names iso_codes descs) = length names"
  by (simp add: build_records_def)

lemma names_build_records:
  "length iso_codes = length names \<Longrightarrow> length descs = length names \<Longrightarrow>
   map name (build_records ver names iso_codes descs) = names"
proof -
  assume a: "length iso_codes = length names" "length descs = length names"
  have "map name (build_records ver names iso_codes descs)
        = map fst (zip names (zip iso_codes descs))"
    by (simp add: build_records_def case_prod_unfold)
  also have "\<dots> = names"
    using a by simp
  finally show ?thesis .
qed


text \<open>What \<^verbatim>\<open>parse_html_file\<close> leaves in the state, path by path.\<close>

lemma parse_db_calls [simp]:
  "db_calls (parse_html_file cfg csv html st) = db_calls st"
  by (simp add: parse_html_file_def Let_def split: html_file.splits prod.splits sum.splits)

lemma parse_raised [simp]:
  "raised (parse_html_file cfg csv html st) = raised st"
  by (simp add: parse_html_file_def Let_def split: html_file.splits prod.splits sum.splits)

lemma parse_extract_error:
  "extract_all cfg (description_tags doc) = Inl e \<Longrightarrow>
   country_data_list (parse_html_file cfg csv (Html doc) st) = country_data_list st
   \<and> unmatched_countries (parse_html_file cfg csv (Html doc) st) = unmatched_countries st
   \<and> HtmlParseError \<in> set (stdout (parse_html_file cfg csv (Html doc) st))"
  by (simp add: parse_html_file_def Let_def split: prod.splits)

lemma parse_pop_error:
  "extract_all cfg (description_tags doc) = Inr descriptions \<Longrightarrow>
   drop_general (map sanitize_text (country_name_tags doc)) descriptions = Inl e \<Longrightarrow>
   country_data_list (parse_html_file cfg csv (Html doc) st) = country_data_list st
   \<and> unmatched_countries (parse_html_file cfg csv (Html doc) st) = unmatched_countries st
   \<and> HtmlParseError \<in> set (stdout (parse_html_file cfg csv (Html doc) st))"
  by (simp add: parse_html_file_def Let_def split: prod.splits)

lemma parse_mismatch:
  assumes "extract_all cfg (description_tags doc) = Inr descriptions"
    and "drop_general (map sanitize_text (country_name_tags doc)) descriptions
         = Inr (names, descs)"
    and "length names \<noteq> length descs"
  shows "country_data_list (parse_html_file cfg csv (Html doc) st) = country_data_list st"
    and "unmatched_countries (parse_html_file cfg csv (Html doc) st)
         = unmatched_countries st @ snd (snd (match_iso_codes csv names))"
    and "MismatchError \<in> set (stdout (parse_html_file cfg csv (Html doc) st))"
    and "MismatchCounts (length names) (length names) (length descs)
         \<in> set (stdout (parse_html_file cfg csv (Html doc) st))"
  using assms
  by (auto simp: parse_html_file_def Let_def split: prod.splits dest: match_iso_codes_length)

lemma parse_records:
  assumes "extract_all cfg (description_tags doc) = Inr descriptions"
    and "drop_general (map sanitize_text (country_name_tags doc)) descriptions
         = Inr (names, descs)"
    and "length names = length descs"
  shows "country_data_list (parse_html_file cfg csv (Html doc) st)
         = country_data_list st
           @ build_records (snd (extract_version (title doc))) names
               (fst (snd (match_iso_codes csv names))) descs"
    and "unmatched_countries (parse_html_file cfg csv (Html doc) st)
         = unmatched_countries st @ snd (snd (match_iso_codes csv names))"
  using assms
  by (auto simp: parse_html_file_def Let_def split: prod.splits dest: match_iso_codes_length)

lemma drop_general_lengths:
  "drop_general country_names descriptions = Inr (names, descs) \<Longrightarrow>
   (length names = length descs) = (length country_names = length descriptions)"
  by (cases country_names; cases descriptions) (auto simp: drop_general_def split: if_splits)

lemma initial_fields [simp]:
  "country_data_list initial_state = []"
  "unmatched_countries initial_state = []"
  "stdout initial_state = []"
  "db_calls initial_state = []"
  "raised initial_state = None"
  by (simp_all add: initial_state_def)

text \<open>What \<^verbatim>\<open>main\<close> leaves in the state, in terms of the outcome of the extraction.\<close>

lemma main_country_data_list:
  "country_data_list (main db cfg csv html)
   = country_data_list (parse_html_file cfg csv html initial_state)"
  by (simp add: main_def Let_def upload_data_to_db_def)

lemma main_unmatched_countries:
  "unmatched_countries (main db cfg csv html)
   = unmatched_countries (parse_html_file cfg csv html initial_state)"
  by (simp add: main_def Let_def upload_data_to_db_def)

lemma main_no_upload:
  assumes "unmatched_countries (parse_html_file cfg csv html initial_state) \<noteq> []
           \<or> country_data_list (parse_html_file cfg csv html initial_state) = []"
  shows "db_calls (main db cfg csv html) = [] \<and> raised (main db cfg csv html) = None"
  using assms by (auto simp: main_def Let_def upload_data_to_db_def)

lemma main_calls_return:
  assumes "\<forall>calls. db calls \<noteq> ConnectError"
    and "unmatched_countries (parse_html_file cfg csv html initial_state) = []"
  shows "db_calls (main db cfg csv html)
         = map (\<lambda>c. (version c, iso_code c, description c))
             (country_data_list (parse_html_file cfg csv html initial_state))
         \<and> raised (main db cfg csv html) = None"
proof -
  let ?st = "emit [Uploading]
      (emit [TotalCountryCount
               (length (country_data_list (parse_html_file cfg csv html initial_state)))]
         (parse_html_file cfg csv html initial_state))"
  have "raised ?st = None" by simp
  from upload_list_returns [OF assms(1) this] show ?thesis
    using assms(2) by (simp add: main_def Let_def upload_data_to_db_def)
qed

lemma main_reports_unmatched:
  assumes "unmatched_countries (parse_html_file cfg csv html initial_state) \<noteq> []"
    and "n \<in> set (unmatched_countries (parse_html_file cfg csv html initial_state))"
  shows "UnmatchedName n \<in> set (stdout (main db cfg csv html))"
  using assms by (simp add: main_def Let_def display_all_countries_def)


lemma main_total_count:
  assumes "unmatched_countries (parse_html_file cfg csv html initial_state) \<noteq> []
           \<or> country_data_list (parse_html_file cfg csv html initial_state) = []"
  shows "TotalCountryCount
           (length (country_data_list (parse_html_file cfg csv html initial_state)))
         \<in> set (stdout (main db cfg csv html))"
  using assms
  by (auto simp: main_def Let_def display_all_countries_def upload_data_to_db_def)

text \<open>
  What \<^verbatim>\<open>main\<close> does behind the extraction. With unmatched names there is no call of
  \<^verbatim>\<open>insert_into_database\<close> and every unmatched name is printed, whatever the server
  does. Without them, and with a server on which \<^verbatim>\<open>connect\<close> never raises, there is
  one call for every record, in the order of the list.
\<close>

lemma gate_closed:
  assumes "unmatched_countries (main db cfg csv html) \<noteq> []"
  shows "db_calls (main db cfg csv html) = []
         \<and> (\<forall>n \<in> set (unmatched_countries (main db cfg csv html)).
               UnmatchedName n \<in> set (stdout (main db cfg csv html)))"
  using assms main_no_upload [of cfg csv html db]
  by (simp add: main_unmatched_countries main_reports_unmatched)

lemma gate_open_calls_return:
  assumes "\<forall>calls. db calls \<noteq> ConnectError"
    and "unmatched_countries (main db cfg csv html) = []"
  shows "db_calls (main db cfg csv html)
         = map (\<lambda>c. (version c, iso_code c, description c))
             (country_data_list (main db cfg csv html))"
  using assms main_calls_return [of db cfg csv html]
  by (simp add: main_unmatched_countries main_country_data_list)

text \<open>
  Claim C1. The first half holds as stated (lemma \<open>gate_closed\<close>). The second half
  fails when the database cannot be reached: the first call of
  \<^verbatim>\<open>insert_into_database\<close> prints the database error and then raises
  \<^verbatim>\<open>UnboundLocalError\<close> out of its \<^verbatim>\<open>finally\<close> clause, so of the two records of
  this run, with no unmatched name, only the first is handed over, and the run ends
  before the listing.
\<close>

theorem connect_failure_aborts_upload:
  "unmatched_countries
     (main (\<lambda>calls. ConnectError) \<lparr>REMOVE_KEYWORDS = '''', CHANGE_FROM = '''', CHANGE_TO = ''''\<rparr>
        (CsvRows [[''iso'', ''name''], [''AR'', ''Argentina''], [''BR'', ''Brazil'']])
        (Html \<lparr>title = Some ''Release notes 2024.09'',
               country_name_tags = [''General'', ''Argentina'', ''Brazil''],
               description_tags = [[''g''], [''a''], [''b'']]\<rparr>)) = []
   \<and> map (\<lambda>c. (version c, iso_code c, description c)) (country_data_list
     (main (\<lambda>calls. ConnectError) \<lparr>REMOVE_KEYWORDS = '''', CHANGE_FROM = '''', CHANGE_TO = ''''\<rparr>
        (CsvRows [[''iso'', ''name''], [''AR'', ''Argentina''], [''BR'', ''Brazil'']])
        (Html \<lparr>title = Some ''Release notes 2024.09'',
               country_name_tags = [''General'', ''Argentina'', ''Brazil''],
               description_tags = [[''g''], [''a''], [''b'']]\<rparr>)))
     = [(''2024.09'', Some ''AR'', ''a''), (''2024.09'', Some ''BR'', ''b'')]
   \<and> db_calls
     (main (\<lambda>calls. ConnectError) \<lparr>REMOVE_KEYWORDS = '''', CHANGE_FROM = '''', CHANGE_TO = ''''\<rparr>
        (CsvRows [[''iso'', ''name''], [''AR'', ''Argentina''], [''BR'', ''Brazil'']])
        (Html \<lparr>title = Some ''Release notes 2024.09'',
               country_name_tags = [''General'', ''Argentina'', ''Brazil''],
               description_tags = [[''g''], [''a''], [''b'']]\<rparr>))
     = [(''2024.09'', Some ''AR'', ''a'')]
   \<and> raised
     (main (\<lambda>calls. ConnectError) \<lparr>REMOVE_KEYWORDS = '''', CHANGE_FROM = '''', CHANGE_TO = ''''\<rparr>
        (CsvRows [[''iso'', ''name''], [''AR'', ''Argentina''], [''BR'', ''Brazil'']])
        (Html \<lparr>title = Some ''Release notes 2024.09'',
               country_name_tags = [''General'', ''Argentina'', ''Brazil''],
               description_tags = [[''g''], [''a''], [''b'']]\<rparr>))
     = Some UnboundLocalError
   \<and> stdout
     (main (\<lambda>calls. ConnectError) \<lparr>REMOVE_KEYWORDS = '''', CHANGE_FROM = '''', CHANGE_TO = ''''\<rparr>
        (CsvRows [[''iso'', ''name''], [''AR'', ''Argentina''], [''BR'', ''Brazil'']])
        (Html \<lparr>title = Some ''Release notes 2024.09'',
               country_name_tags = [''General'', ''Argentina'', ''Brazil''],
               description_tags = [[''g''], [''a''], [''b'']]\<rparr>))
     = [TotalCountryCount 2, Uploading, DatabaseError]"
  by code_simp


lemma extract_all_length:
  "extract_all cfg uls = Inr ds \<Longrightarrow> length ds = length uls"
  by (induction uls arbitrary: ds) (auto split: sum.splits)

text \<open>
  Claim C4, as the specification states it, fails: a mismatch is not fatal and no
  error is raised. With three country blocks and two description blocks
  \<^verbatim>\<open>parse_html_file\<close> prints the mismatch and returns, and \<^verbatim>\<open>main\<close> goes on: it prints
  the count 0, reports the name left unmatched, and prints the empty listing.
\<close>

theorem mismatch_is_not_fatal:
  "stdout
     (main (\<lambda>calls. Committed) \<lparr>REMOVE_KEYWORDS = '''', CHANGE_FROM = '''', CHANGE_TO = ''''\<rparr>
        (CsvRows [[''iso'', ''name''], [''AR'', ''Argentina''], [''BR'', ''Brazil'']])
        (Html \<lparr>title = Some ''Release notes 2024.09'',
               country_name_tags = [''Argentina'', ''Brazil'', ''Chile''],
               description_tags = [[''a''], [''b'']]\<rparr>))
   = [MismatchError, MismatchCounts 3 3 2, TotalCountryCount 0, UnmatchedHeader,
      UnmatchedName ''Chile'', Separator, Separator]
   \<and> raised
     (main (\<lambda>calls. Committed) \<lparr>REMOVE_KEYWORDS = '''', CHANGE_FROM = '''', CHANGE_TO = ''''\<rparr>
        (CsvRows [[''iso'', ''name''], [''AR'', ''Argentina''], [''BR'', ''Brazil'']])
        (Html \<lparr>title = Some ''Release notes 2024.09'',
               country_name_tags = [''Argentina'', ''Brazil'', ''Chile''],
               description_tags = [[''a''], [''b'']]\<rparr>)) = None
   \<and> stdout
     (main (\<lambda>calls. Committed) \<lparr>REMOVE_KEYWORDS = '''', CHANGE_FROM = '''', CHANGE_TO = ''''\<rparr>
        (CsvRows [[''iso'', ''name''], [''AR'', ''Argentina'']])
        (Html \<lparr>title = Some ''Release notes 2024.09'',
               country_name_tags = [''General'', ''Argentina''],
               description_tags = []\<rparr>))
   = [HtmlParseError, TotalCountryCount 0, Uploading, Separator, Separator]"
  by code_simp

text \<open>
  Claim C4, amended. Let the number of country-name blocks and the number of
  description blocks of a document differ. Then \<^verbatim>\<open>parse_html_file\<close> adds no record at
  all: the record set of the run is empty, never a part of it, and no call of
  \<^verbatim>\<open>insert_into_database\<close> is made. No error is raised and the run is not aborted: a
  diagnostic is printed, then the count 0. The two numbers differ behind the removal of
  "General" as well, whenever the extraction gets there, and the diagnostic is then the
  mismatch error with the three lengths; if a step before the check has raised, it is
  the error of parsing.
\<close>

theorem mismatch_returns_no_records:
  assumes "length (country_name_tags doc) \<noteq> length (description_tags doc)"
  shows "country_data_list (parse_html_file cfg csv (Html doc) initial_state) = []
         \<and> country_data_list (main db cfg csv (Html doc)) = []
         \<and> db_calls (main db cfg csv (Html doc)) = []
         \<and> raised (main db cfg csv (Html doc)) = None
         \<and> TotalCountryCount 0 \<in> set (stdout (main db cfg csv (Html doc)))
         \<and> (MismatchError \<in> set (stdout (parse_html_file cfg csv (Html doc) initial_state))
            \<or> HtmlParseError
               \<in> set (stdout (parse_html_file cfg csv (Html doc) initial_state)))
         \<and> (\<forall>descriptions names descs.
               extract_all cfg (description_tags doc) = Inr descriptions
               \<and> drop_general (map sanitize_text (country_name_tags doc)) descriptions
                  = Inr (names, descs)
               \<longrightarrow> length names \<noteq> length descs
                   \<and> MismatchError
                      \<in> set (stdout (parse_html_file cfg csv (Html doc) initial_state))
                   \<and> MismatchCounts (length names) (length names) (length descs)
                      \<in> set (stdout (parse_html_file cfg csv (Html doc) initial_state)))"
proof -
  let ?p = "parse_html_file cfg csv (Html doc) initial_state"
  have differ: "length names \<noteq> length descs"
    if "extract_all cfg (description_tags doc) = Inr descriptions"
      and "drop_general (map sanitize_text (country_name_tags doc)) descriptions
           = Inr (names, descs)"
    for descriptions names descs
    using that assms drop_general_lengths [OF that(2)] extract_all_length [OF that(1)]
    by simp
  have none: "country_data_list ?p = []
              \<and> (MismatchError \<in> set (stdout ?p) \<or> HtmlParseError \<in> set (stdout ?p))"
  proof (cases "extract_all cfg (description_tags doc)")
    case (Inl e)
    then show ?thesis using parse_extract_error [OF Inl, of csv initial_state] by simp
  next
    case (Inr descriptions)
    show ?thesis
    proof (cases "drop_general (map sanitize_text (country_name_tags doc)) descriptions")
      case (Inl e)
      then show ?thesis
        using parse_pop_error [OF Inr Inl, of csv initial_state] by simp
    next
      case r: (Inr nd)
      obtain names descs where nd: "nd = (names, descs)" by (cases nd)
      show ?thesis
        using parse_mismatch(1,3) [OF Inr r [unfolded nd] differ [OF Inr r [unfolded nd]],
            of csv initial_state]
        by simp
    qed
  qed
  have msgs: "MismatchError \<in> set (stdout ?p)
              \<and> MismatchCounts (length names) (length names) (length descs) \<in> set (stdout ?p)"
    if "extract_all cfg (description_tags doc) = Inr descriptions"
      and "drop_general (map sanitize_text (country_name_tags doc)) descriptions
           = Inr (names, descs)"
    for descriptions names descs
    using parse_mismatch(3,4) [OF that differ [OF that], of csv initial_state] by simp
  have e: "unmatched_countries ?p \<noteq> [] \<or> country_data_list ?p = []"
    using none by simp
  have run: "db_calls (main db cfg csv (Html doc)) = []
             \<and> raised (main db cfg csv (Html doc)) = None"
    by (rule main_no_upload [OF e])
  have count: "TotalCountryCount 0 \<in> set (stdout (main db cfg csv (Html doc)))"
    using main_total_count [OF e, of db] none by simp
  show ?thesis
    using none differ msgs run count
    by (simp add: main_country_data_list)
qed

theorem mismatch_returns_no_records_witness:
  "country_data_list
     (parse_html_file \<lparr>REMOVE_KEYWORDS = '''', CHANGE_FROM = '''', CHANGE_TO = ''''\<rparr>
        (CsvRows [[''iso'', ''name''], [''AR'', ''Argentina''], [''BR'', ''Brazil'']])
        (Html \<lparr>title = Some ''Release notes 2024.09'',
               country_name_tags = [''Argentina'', ''Brazil'', ''Chile''],
               description_tags = [[''a''], [''b'']]\<rparr>) initial_state) = []
   \<and> MismatchCounts 3 3 2 \<in> set (stdout
     (parse_html_file \<lparr>REMOVE_KEYWORDS = '''', CHANGE_FROM = '''', CHANGE_TO = ''''\<rparr>
        (CsvRows [[''iso'', ''name''], [''AR'', ''Argentina''], [''BR'', ''Brazil'']])
        (Html \<lparr>title = Some ''Release notes 2024.09'',
               country_name_tags = [''Argentina'', ''Brazil'', ''Chile''],
               description_tags = [[''a''], [''b'']]\<rparr>) initial_state))
   \<and> db_calls
     (main (\<lambda>calls. Committed) \<lparr>REMOVE_KEYWORDS = '''', CHANGE_FROM = '''', CHANGE_TO = ''''\<rparr>
        (CsvRows [[''iso'', ''name''], [''AR'', ''Argentina''], [''BR'', ''Brazil'']])
        (Html \<lparr>title = Some ''Release notes 2024.09'',
               country_name_tags = [''Argentina'', ''Brazil'', ''Chile''],
               description_tags = [[''a''], [''b'']]\<rparr>)) = []
   \<and> raised
     (main (\<lambda>calls. Committed) \<lparr>REMOVE_KEYWORDS = '''', CHANGE_FROM = '''', CHANGE_TO = ''''\<rparr>
        (CsvRows [[''iso'', ''name''], [''AR'', ''Argentina''], [''BR'', ''Brazil'']])
        (Html \<lparr>title = Some ''Release notes 2024.09'',
               country_name_tags = [''Argentina'', ''Brazil'', ''Chile''],
               description_tags = [[''a''], [''b'']]\<rparr>)) = None"
proof -
  let ?cfg = "\<lparr>REMOVE_KEYWORDS = '''', CHANGE_FROM = '''', CHANGE_TO = ''''\<rparr>"
  let ?doc = "\<lparr>title = Some ''Release notes 2024.09'',
               country_name_tags = [''Argentina'', ''Brazil'', ''Chile''],
               description_tags = [[''a''], [''b'']]\<rparr>"
  have h: "length (country_name_tags ?doc) \<noteq> length (description_tags ?doc)"
    by simp
  have e: "extract_all ?cfg (description_tags ?doc) = Inr [[''a''], [''b'']]"
    by code_simp
  have d: "drop_general (map sanitize_text (country_name_tags ?doc)) [[''a''], [''b'']]
           = Inr ([''Argentina'', ''Brazil'', ''Chile''], [[''a''], [''b'']])"
    by code_simp
  note t = mismatch_returns_no_records [OF h, of ?cfg
      "CsvRows [[''iso'', ''name''], [''AR'', ''Argentina''], [''BR'', ''Brazil'']]"
      "\<lambda>calls. Committed"]
  have m: "MismatchCounts (length [''Argentina'', ''Brazil'', ''Chile''])
             (length [''Argentina'', ''Brazil'', ''Chile'']) (length [[''a''], [''b'']])
           \<in> set (stdout (parse_html_file ?cfg
               (CsvRows [[''iso'', ''name''], [''AR'', ''Argentina''], [''BR'', ''Brazil'']])
               (Html ?doc) initial_state))"
    using t e d by blast
  show ?thesis
    using t m by (simp add: numeral_3_eq_3 numeral_2_eq_2)
qed

text \<open>
  Claim C6, as the specification states it, fails: only the first block is looked at,
  so a later block named "General" gives a record of that name.
\<close>

theorem later_general_is_kept:
  "map name (country_data_list
     (parse_html_file \<lparr>REMOVE_KEYWORDS = '''', CHANGE_FROM = '''', CHANGE_TO = ''''\<rparr>
        (CsvRows [[''iso'', ''name''], [''AR'', ''Argentina'']])
        (Html \<lparr>title = Some ''Release notes 2024.09'',
               country_name_tags = [''General'', ''General'', ''Argentina''],
               description_tags = [[''g''], [''h''], [''a'']]\<rparr>) initial_state))
   = [''General'', ''Argentina'']"
  by code_simp

text \<open>
  Claim C6, amended. Let the first sanitized country name equal "general", letter case
  aside, let there be as many description blocks as country blocks, \<open>N\<close> of each, and
  let the rewriting of the list items raise no error. Then the first name and the first
  description block are dropped before the pairing: there are \<open>N - 1\<close> records, and
  their names are the sanitized names of the blocks behind the first, in their order.
\<close>

theorem general_first_block_dropped:
  assumes "extract_all cfg (description_tags doc) = Inr descriptions"
    and "country_name_tags doc = first # others"
    and "lower (sanitize_text first) = ''general''"
    and "length (description_tags doc) = length (country_name_tags doc)"
  shows "length (country_data_list (parse_html_file cfg csv (Html doc) initial_state))
         = length (country_name_tags doc) - 1
         \<and> map name (country_data_list (parse_html_file cfg csv (Html doc) initial_state))
           = map sanitize_text others
         \<and> map description
             (country_data_list (parse_html_file cfg csv (Html doc) initial_state))
           = map join_newline (tl descriptions)"
proof -
  let ?names = "map sanitize_text others"
  let ?descs = "tl descriptions"
  have len: "length descriptions = Suc (length others)"
    using extract_all_length [OF assms(1)] assms(2,4) by simp
  then have ne: "descriptions \<noteq> []" by auto
  have d: "drop_general (map sanitize_text (country_name_tags doc)) descriptions
           = Inr (?names, ?descs)"
    using assms(2,3) ne by (simp add: drop_general_def)
  have eq: "length ?names = length ?descs"
    using len by simp
  obtain out iso_codes unmatched
    where m: "match_iso_codes csv ?names = (out, iso_codes, unmatched)"
    by (cases "match_iso_codes csv ?names") auto
  have li: "length iso_codes = length ?names"
    by (rule match_iso_codes_length [OF m])
  have r: "country_data_list (parse_html_file cfg csv (Html doc) initial_state)
           = build_records (snd (extract_version (title doc))) ?names iso_codes ?descs"
    using parse_records(1) [OF assms(1) d eq, of csv initial_state] m by simp
  have ld: "length ?descs = length ?names"
    using eq by simp
  have descr: "map description (build_records ver ?names iso_codes ?descs)
               = map join_newline ?descs" for ver
  proof -
    have "map description (build_records ver ?names iso_codes ?descs)
          = map join_newline (map snd (map snd (zip ?names (zip iso_codes ?descs))))"
      by (simp add: build_records_def case_prod_unfold)
    also have "map snd (zip ?names (zip iso_codes ?descs)) = zip iso_codes ?descs"
      using li ld by (simp del: map_map)
    also have "map snd (zip iso_codes ?descs) = ?descs"
      using li ld by (simp del: map_map)
    finally show ?thesis .
  qed
  show ?thesis
    unfolding r
    using length_build_records [OF li ld] names_build_records [OF li ld] descr assms(2)
    by simp
qed

theorem general_first_block_dropped_witness:
  "length (country_data_list
     (parse_html_file \<lparr>REMOVE_KEYWORDS = '''', CHANGE_FROM = '''', CHANGE_TO = ''''\<rparr>
        (CsvRows [[''iso'', ''name''], [''AR'', ''Argentina'']])
        (Html \<lparr>title = Some ''Release notes 2024.09'',
               country_name_tags = ['' GENERAL '', ''Argentina'', ''Brazil''],
               description_tags = [[''g''], [''a''], [''b'']]\<rparr>) initial_state)) = 2
   \<and> map name (country_data_list
     (parse_html_file \<lparr>REMOVE_KEYWORDS = '''', CHANGE_FROM = '''', CHANGE_TO = ''''\<rparr>
        (CsvRows [[''iso'', ''name''], [''AR'', ''Argentina'']])
        (Html \<lparr>title = Some ''Release notes 2024.09'',
               country_name_tags = ['' GENERAL '', ''Argentina'', ''Brazil''],
               description_tags = [[''g''], [''a''], [''b'']]\<rparr>) initial_state))
     = [''Argentina'', ''Brazil'']"
proof -
  let ?cfg = "\<lparr>REMOVE_KEYWORDS = '''', CHANGE_FROM = '''', CHANGE_TO = ''''\<rparr>"
  let ?doc = "\<lparr>title = Some ''Release notes 2024.09'',
               country_name_tags = ['' GENERAL '', ''Argentina'', ''Brazil''],
               description_tags = [[''g''], [''a''], [''b'']]\<rparr>"
  have e: "extract_all ?cfg (description_tags ?doc) = Inr [[''g''], [''a''], [''b'']]"
    by code_simp
  have c: "country_name_tags ?doc = '' GENERAL '' # [''Argentina'', ''Brazil'']"
    by simp
  have g: "lower (sanitize_text '' GENERAL '') = ''general''"
    by code_simp
  have l: "length (description_tags ?doc) = length (country_name_tags ?doc)"
    by simp
  have s: "map sanitize_text [''Argentina'', ''Brazil''] = [''Argentina'', ''Brazil'']"
    by code_simp
  show ?thesis
    using general_first_block_dropped [OF e c g l,
        of "CsvRows [[''iso'', ''name''], [''AR'', ''Argentina'']]"] s
    by simp
qed






end
